theory Spec2Isabelle
  imports Complex_Main "HOL-Library.AList"
begin

section \<open>Values, exceptions and Python helpers\<close>

text \<open>
  JSON values as the parsers of the program return them: a Python dict is an
  association list (insertion order kept), a Python list is a list.
\<close>

datatype json =
    JNull
  | JBool bool
  | JInt int
  | JStr string
  | JArr "json list"
  | JObj "(string \<times> json) list"

text \<open>
  Exception classes met in \<open>main.py\<close> and \<open>openai_utils.py\<close>.  All of them derive
  from Python's \<open>Exception\<close>, the class the catch-all handlers of the program name.
  \<open>ContentTypeError\<close> is a subclass of \<open>aiohttp.ClientError\<close>, and \<open>TimeoutError\<close>
  stands for \<open>asyncio.TimeoutError\<close>.  \<open>HTTPException\<close> (fastapi) carries
  \<open>status_code\<close> and \<open>detail\<close>; every other exception carries its message.
\<close>

datatype exn_class =
    NameError | ValueError | TypeError | KeyError | IndexError | AttributeError
  | JSONDecodeError | ClientError | ContentTypeError | TimeoutError | OtherError

datatype exn =
    Raised exn_class string
  | HTTPException int string

text \<open>Scalar Python values that occur as query parameters and call arguments.\<close>

datatype pyval = PStr string | PInt int | PNone

fun digits :: "nat \<Rightarrow> string" where
  "digits n =
     (if n < 10 then [''0123456789'' ! n]
      else digits (n div 10) @ [''0123456789'' ! (n mod 10)])"

declare digits.simps [simp del]

definition str_int :: "int \<Rightarrow> string" where
  "str_int i = (if i < 0 then CHR ''-'' # digits (nat (- i)) else digits (nat i))"

fun py_str :: "pyval \<Rightarrow> string" where
  "py_str (PStr s) = s"
| "py_str (PInt i) = str_int i"
| "py_str PNone = ''None''"

text \<open>
  \<open>str(e)\<close> of an exception: its message.  The text of an \<open>HTTPException\<close> depends
  on the version of the web framework; it is taken as empty, and no property below
  depends on it.
\<close>

fun str_exn :: "exn \<Rightarrow> string" where
  "str_exn (Raised c msg) = msg"
| "str_exn (HTTPException code detail) = []"

text \<open>
  Python truthiness of a parsed JSON value (\<open>if data\<close>, \<open>x or {}\<close>).
\<close>

fun truthy :: "json \<Rightarrow> bool" where
  "truthy JNull = False"
| "truthy (JBool b) = b"
| "truthy (JInt i) = (i \<noteq> 0)"
| "truthy (JStr s) = (s \<noteq> [])"
| "truthy (JArr xs) = (xs \<noteq> [])"
| "truthy (JObj kvs) = (kvs \<noteq> [])"

text \<open>
  Text that the program inspects character by character is a list of Unicode code
  points.  \<open>str.strip()\<close> removes from both ends the code points for which
  \<open>str.isspace()\<close> holds: U+0009 to U+000D, U+001C to U+0020, U+0085, U+00A0, U+1680,
  U+2000 to U+200A, U+2028, U+2029, U+202F, U+205F and U+3000.
\<close>

type_synonym ustring = "nat list"

definition code_points :: "string \<Rightarrow> ustring" where
  "code_points s = map of_char s"

definition is_space :: "nat \<Rightarrow> bool" where
  "is_space n =
     ((9 \<le> n \<and> n \<le> 13) \<or> (28 \<le> n \<and> n \<le> 32) \<or> n = 133 \<or> n = 160 \<or> n = 5760 \<or>
      (8192 \<le> n \<and> n \<le> 8202) \<or> n = 8232 \<or> n = 8233 \<or> n = 8239 \<or> n = 8287 \<or>
      n = 12288)"

definition lstrip :: "ustring \<Rightarrow> ustring" where
  "lstrip s = dropWhile is_space s"

definition rstrip :: "ustring \<Rightarrow> ustring" where
  "rstrip s = rev (dropWhile is_space (rev s))"

definition strip :: "ustring \<Rightarrow> ustring" where
  "strip s = rstrip (lstrip s)"

text \<open>
  \<open>s.replace(old, new)\<close> for a non-empty \<open>old\<close>: the occurrences are found from the
  left and do not overlap.
\<close>

function replace :: "'a list \<Rightarrow> 'a list \<Rightarrow> 'a list \<Rightarrow> 'a list" where
  "replace old new [] = []"
| "replace old new (c # cs) =
     (if old \<noteq> [] \<and> take (length old) (c # cs) = old
      then new @ replace old new (drop (length old - 1) cs)
      else c # replace old new cs)"
  by pat_completeness auto
termination
  by (relation "measure (\<lambda>(old, new, s). length s)") auto

section \<open>The trending route (main.py, lines 250 to 253 and 331 to 334)\<close>

text \<open>
  Binding positional arguments to parameters that all have defaults: more arguments
  than parameters is a \<open>TypeError\<close>; missing ones take their defaults.  The receiver
  \<open>self\<close> is bound by the method call and is not in either list.
\<close>

definition bind_positional :: "string \<Rightarrow> pyval list \<Rightarrow> pyval list \<Rightarrow> exn + pyval list" where
  "bind_positional fname defaults args =
     (if length defaults < length args
      then Inl (Raised TypeError
             (fname @ ''() takes from 1 to '' @ str_int (int (length defaults) + 1)
                @ '' positional arguments but '' @ str_int (int (length args) + 1)
                @ '' were given''))
      else Inr (args @ drop (length args) defaults))"

text \<open>\<open>data.get("results", [])\<close>: on a dict the entry or the default; a value of
  another type has no \<open>get\<close>.\<close>

fun type_name :: "json \<Rightarrow> string" where
  "type_name JNull = ''NoneType''"
| "type_name (JBool b) = ''bool''"
| "type_name (JInt i) = ''int''"
| "type_name (JStr s) = ''str''"
| "type_name (JArr xs) = ''list''"
| "type_name (JObj kvs) = ''dict''"

fun get_results :: "json \<Rightarrow> exn + json" where
  "get_results (JObj kvs) =
     (case map_of kvs ''results'' of None \<Rightarrow> Inr (JArr []) | Some v \<Rightarrow> Inr v)"
| "get_results v =
     Inl (Raised AttributeError
       ([CHR 0x27] @ type_name v @ [CHR 0x27] @ '' object has no attribute ''
          @ [CHR 0x27] @ ''get'' @ [CHR 0x27]))"

text \<open>
  \<open>TMDBClient.get_trending(self, media_type="all", time_window="day")\<close>.  The request
  function \<open>_make_request\<close> is the parameter \<open>mk\<close>, called with the endpoint alone.
\<close>

definition TMDBClient_get_trending :: "(string \<Rightarrow> exn + json) \<Rightarrow> pyval list \<Rightarrow> exn + json" where
  "TMDBClient_get_trending mk args =
     (case bind_positional ''TMDBClient.get_trending'' [PStr ''all'', PStr ''day''] args of
        Inl e \<Rightarrow> Inl e
      | Inr bound \<Rightarrow>
          (let media_type = bound ! 0; time_window = bound ! 1;
               endpoint = ''trending/'' @ py_str media_type @ ''/'' @ py_str time_window
           in case mk endpoint of
                Inl e \<Rightarrow> Inl e
              | Inr data \<Rightarrow> (if truthy data then get_results data else Inr (JArr []))))"

text \<open>
  The handler of \<open>GET /api/trending\<close>: it passes \<open>media_type\<close>, \<open>time_window\<close> and
  \<open>page\<close> and wraps the answer in \<open>{"results": ...}\<close>.
\<close>

definition get_trending :: "(string \<Rightarrow> exn + json) \<Rightarrow> string \<Rightarrow> string \<Rightarrow> int \<Rightarrow> exn + json" where
  "get_trending mk media_type time_window page =
     (case TMDBClient_get_trending mk [PStr media_type, PStr time_window, PInt page] of
        Inl e \<Rightarrow> Inl e
      | Inr results \<Rightarrow> Inr (JObj [(''results'', results)]))"

section \<open>Streaming links from the completion API (openai_utils.py, lines 16 to 79)\<close>

text \<open>
  The completion call is a parameter: given title, content type and year (from which
  the source builds its prompt) it raises, or returns a response.  Of the response
  the function uses \<open>response.choices[0].message['content']\<close> alone, so a response is
  what evaluating that expression does: it raises (\<open>IndexError\<close> on an empty list of
  choices, \<open>KeyError\<close> on a message without content, or anything else), or it yields a
  text, or it yields an object that is no text (\<open>None\<close>), on which \<open>.strip()\<close> raises
  \<open>AttributeError\<close>.  \<open>json.loads\<close> is a parameter too.
\<close>

datatype content = Lookup_raises exn | Text ustring | Not_text

definition fence :: ustring where
  "fence = code_points ''```''"

definition fence_json :: ustring where
  "fence_json = code_points ''```json''"

text \<open>
  Lines 68 and 70:
  \<open>content.strip()\<close>, then \<open>.replace('```json', '').replace('```', '').strip()\<close>.
\<close>

definition clean_content :: "ustring \<Rightarrow> ustring" where
  "clean_content s = strip (replace fence [] (replace fence_json [] (strip s)))"

text \<open>The body of the inner \<open>try\<close> (lines 68 to 72).\<close>

definition parse_links :: "(ustring \<Rightarrow> exn + json) \<Rightarrow> content \<Rightarrow> exn + json list" where
  "parse_links loads c =
     (case c of
        Lookup_raises e \<Rightarrow> Inl e
      | Not_text \<Rightarrow>
          Inl (Raised AttributeError
            ([CHR 0x27] @ ''NoneType'' @ [CHR 0x27] @ '' object has no attribute ''
               @ [CHR 0x27] @ ''strip'' @ [CHR 0x27]))
      | Text s \<Rightarrow>
          (case loads (clean_content s) of
             Inl e \<Rightarrow> Inl e
           | Inr (JArr links) \<Rightarrow> Inr links
           | Inr _ \<Rightarrow> Inr []))"

text \<open>
  The inner handler takes \<open>json.JSONDecodeError\<close> and \<open>KeyError\<close> (line 73), the outer
  one every other exception (line 77); both return the empty list.
\<close>

fun inner_handles :: "exn \<Rightarrow> bool" where
  "inner_handles (Raised c msg) = (c = JSONDecodeError \<or> c = KeyError)"
| "inner_handles (HTTPException code detail) = False"

definition get_direct_streaming_links ::
  "(ustring \<Rightarrow> exn + json) \<Rightarrow> (string \<Rightarrow> string \<Rightarrow> int option \<Rightarrow> exn + content)
     \<Rightarrow> string \<Rightarrow> string \<Rightarrow> int option \<Rightarrow> exn + json list" where
  "get_direct_streaming_links loads create title content_type year =
     (case create title content_type year of
        Inl e \<Rightarrow> Inr []
      | Inr c \<Rightarrow>
          (case parse_links loads c of
             Inr links \<Rightarrow> Inr links
           | Inl e \<Rightarrow> (if inner_handles e then Inr [] else Inr [])))"

text \<open>
  \<open>occurs pat s\<close>: \<open>pat\<close> occurs in \<open>s\<close> at some position; \<open>ticks s\<close> counts the
  backquotes (U+0060) \<open>s\<close> starts with.
\<close>

fun occurs :: "'a list \<Rightarrow> 'a list \<Rightarrow> bool" where
  "occurs pat [] = (pat = [])"
| "occurs pat (c # cs) = (take (length pat) (c # cs) = pat \<or> occurs pat cs)"

definition ticks :: "ustring \<Rightarrow> nat" where
  "ticks s = length (takeWhile (\<lambda>c. c = 96) s)"

section \<open>The request function of TMDBClient (main.py, lines 72 to 248)\<close>

text \<open>
  The body of \<open>_make_request\<close> holds two retry loops.  Lines 109 to 181 are a whole loop
  that ends in a \<open>raise\<close>.  Lines 182 to 248 are the tail of a second loop: its header
  (\<open>for attempt in range(max_retries)\<close>, \<open>try\<close> and the opening of \<open>session.get\<close>) is
  not in the file and is read off the tail's own use of \<open>attempt\<close>, \<open>continue\<close>,
  \<open>response\<close> and its \<open>except\<close> clauses.  Both are embedded, as \<open>make_request_a\<close> and
  \<open>make_request_b\<close>, on the shared prologue of lines 92 to 106.  The first is the loop
  the function has; the second is kept beside it for comparison, and no property of
  the function is drawn from it alone.
\<close>

subsection \<open>The outside world\<close>

type_synonym params = "(string \<times> pyval) list"

text \<open>
  A response of the catalog API: its status, its headers, its text (the value of
  \<open>await response.text()\<close>, taken as readable), and what \<open>await response.json()\<close>
  does on it (the parsed value, or the exception raised).
\<close>

record response =
  status :: int
  headers :: "(string \<times> string) list"
  body :: string
  json_result :: "exn + json"

text \<open>What one \<open>session.get\<close> does: it yields a response or raises.\<close>

datatype outcome = Resp response | Fail exn

text \<open>
  The effects of a call, in order: the GET requests issued and the sleeps awaited.
  \<open>served\<close> counts the requests; the \<open>n\<close>-th request gets the outcome \<open>backend n\<close>.
  \<open>last_exception\<close> is the local variable of that name.
\<close>

datatype event = Get string params | Sleep real

record state =
  served :: nat
  events :: "event list"
  last_exception :: "exn option"

text \<open>
  One call: the backend, the value the random generator would return at each attempt,
  the URL, the query parameters and \<open>max_retries\<close>.
\<close>

record call =
  backend :: "nat \<Rightarrow> outcome"
  jitter :: "nat \<Rightarrow> real"
  url :: string
  query :: params
  max_retries :: int

subsection \<open>Names, headers and integers\<close>

text \<open>
  The names bound at module level in \<open>main.py\<close>: the imports of lines 1 to 19 and the
  names the module defines.  A name a function reads without assigning it is looked up
  here (none of the names below is a builtin, and \<open>random\<close> is not one either).
\<close>

definition module_globals :: "string list" where
  "module_globals =
     [''aiohttp'', ''asyncio'', ''logging'', ''traceback'', ''FastAPI'', ''Request'',
      ''HTTPException'', ''JSONResponse'', ''logger'', ''StaticFiles'', ''Jinja2Templates'',
      ''HTMLResponse'', ''requests'', ''os'', ''Path'', ''List'', ''Dict'', ''Optional'',
      ''Any'', ''datetime'', ''app'', ''add_process_time_header'', ''BASE_DIR'',
      ''templates'', ''TMDB_API_KEY'', ''TMDB_IMAGE_BASE_URL'', ''TMDBClient'',
      ''tmdb_client'', ''test'', ''health_check'', ''get_trending'', ''search'',
      ''get_movie'', ''get_popular_movies'', ''get_top_rated_movies'', ''favicon'',
      ''read_root'', ''read_movie'', ''search_movies'', ''watch_media'']"

definition load_name :: "string \<Rightarrow> exn + unit" where
  "load_name n =
     (if n \<in> set module_globals then Inr ()
      else Inl (Raised NameError (''name '' @ [CHR 0x27] @ n @ [CHR 0x27] @ '' is not defined'')))"

text \<open>
  The two backoff expressions.  Line 158 and 173: \<open>1 + random.random() * (2 ** attempt)\<close>;
  lines 214, 229 and 238: \<open>(2 ** attempt) + random.uniform(0, 1)\<close>.  Each loads the name
  \<open>random\<close> before anything is computed from it.
\<close>

definition random_undefined :: exn where
  "random_undefined = Raised NameError (''name '' @ [CHR 0x27] @ ''random'' @ [CHR 0x27] @ '' is not defined'')"

definition backoff_a :: "real \<Rightarrow> nat \<Rightarrow> exn + real" where
  "backoff_a j attempt =
     (case load_name ''random'' of Inl e \<Rightarrow> Inl e | Inr _ \<Rightarrow> Inr (1 + j * 2 ^ attempt))"

definition backoff_b :: "real \<Rightarrow> nat \<Rightarrow> exn + real" where
  "backoff_b j attempt =
     (case load_name ''random'' of Inl e \<Rightarrow> Inl e | Inr _ \<Rightarrow> Inr (2 ^ attempt + j))"

text \<open>Header names are compared without regard to case.\<close>

definition lower :: "char \<Rightarrow> char" where
  "lower c =
     (case map_of (zip ''ABCDEFGHIJKLMNOPQRSTUVWXYZ'' ''abcdefghijklmnopqrstuvwxyz'') c of
        None \<Rightarrow> c
      | Some l \<Rightarrow> l)"

definition header_get :: "(string \<times> string) list \<Rightarrow> string \<Rightarrow> string option" where
  "header_get hs name = map_of (map (\<lambda>(k, v). (map lower k, v)) hs) (map lower name)"

text \<open>
  \<open>int(s)\<close> on a header value, in which a \<open>char\<close> stands for a code point below 256.
  The interpreter first turns the white space beyond ASCII (here U+0085 and U+00A0)
  into spaces.  It then skips the white space of C (tab to carriage return, and space),
  takes an optional sign, and reads the longest run of decimal digits and underscores:
  the run may not start with an underscore, hold two in a row or end in one.  A run of
  more than 4300 digits is refused (the default limit).  The run must hold a digit,
  and only white space of C may follow it.  Every refusal is a \<open>ValueError\<close>; that of a
  malformed text shows \<open>repr(s)\<close>, cut at 200 characters.
\<close>

definition ascii_space :: "char \<Rightarrow> bool" where
  "ascii_space c = (let n = (of_char c :: nat) in (9 \<le> n \<and> n \<le> 13) \<or> n = 32)"

definition fold_space :: "char \<Rightarrow> char" where
  "fold_space c = (let n = (of_char c :: nat) in if n = 133 \<or> n = 160 then CHR '' '' else c)"

definition is_digit :: "char \<Rightarrow> bool" where
  "is_digit c = (let n = (of_char c :: nat) in 48 \<le> n \<and> n \<le> 57)"

definition digit_or_underscore :: "char \<Rightarrow> bool" where
  "digit_or_underscore c = (is_digit c \<or> c = CHR ''_'')"

fun underscores_ok :: "string \<Rightarrow> bool" where
  "underscores_ok [] = True"
| "underscores_ok [c] = (c \<noteq> CHR ''_'')"
| "underscores_ok (c # d # cs) =
     (\<not> (c = CHR ''_'' \<and> d = CHR ''_'') \<and> underscores_ok (d # cs))"

fun digits_value :: "nat \<Rightarrow> string \<Rightarrow> nat" where
  "digits_value acc [] = acc"
| "digits_value acc (c # cs) =
     (if c = CHR ''_'' then digits_value acc cs
      else digits_value (10 * acc + (of_char c - 48)) cs)"

text \<open>
  \<open>repr(s)\<close>: double quotes when the text holds a single quote and no double one,
  single quotes otherwise; the quote and the backslash are escaped, tab, line feed and
  carriage return are written \<open>\t\<close>, \<open>\n\<close>, \<open>\r\<close>, and every other code point that is
  not printable is written \<open>\xNN\<close>.
\<close>

definition hex2 :: "nat \<Rightarrow> string" where
  "hex2 n = [''0123456789abcdef'' ! (n div 16), ''0123456789abcdef'' ! (n mod 16)]"

definition printable :: "char \<Rightarrow> bool" where
  "printable c = (let n = (of_char c :: nat) in (32 \<le> n \<and> n < 127) \<or> (161 \<le> n \<and> n \<noteq> 173))"

definition escape :: "char \<Rightarrow> char \<Rightarrow> string" where
  "escape q c =
     (let n = (of_char c :: nat) in
      if c = q \<or> c = CHR 0x5C then [CHR 0x5C, c]
      else if n = 9 then [CHR 0x5C, CHR ''t'']
      else if n = 10 then [CHR 0x5C, CHR ''n'']
      else if n = 13 then [CHR 0x5C, CHR ''r'']
      else if printable c then [c]
      else CHR 0x5C # CHR ''x'' # hex2 n)"

definition py_repr :: "string \<Rightarrow> string" where
  "py_repr s =
     (let q = (if CHR 0x27 \<in> set s \<and> CHR 0x22 \<notin> set s then CHR 0x22 else CHR 0x27)
      in q # concat (map (escape q) s) @ [q])"

definition invalid_literal :: "string \<Rightarrow> exn" where
  "invalid_literal s =
     Raised ValueError (''invalid literal for int() with base 10: '' @ take 200 (py_repr s))"

definition too_many_digits :: "nat \<Rightarrow> exn" where
  "too_many_digits n =
     Raised ValueError
       (''Exceeds the limit (4300 digits) for integer string conversion: value has ''
          @ str_int (int n)
          @ '' digits; use sys.set_int_max_str_digits() to increase the limit'')"

definition py_int :: "string \<Rightarrow> exn + int" where
  "py_int s =
     (let t = dropWhile ascii_space (map fold_space s);
          neg = (t \<noteq> [] \<and> hd t = CHR ''-'');
          u = (if t \<noteq> [] \<and> (hd t = CHR ''-'' \<or> hd t = CHR ''+'') then tl t else t);
          run = takeWhile digit_or_underscore u;
          rest = dropWhile digit_or_underscore u;
          n = length (filter is_digit run)
      in if (u \<noteq> [] \<and> hd u = CHR ''_'') \<or> \<not> underscores_ok run then Inl (invalid_literal s)
         else if 4300 < n then Inl (too_many_digits n)
         else if run = [] \<or> dropWhile ascii_space rest \<noteq> [] then Inl (invalid_literal s)
         else Inr (if neg then - int (digits_value 0 run) else int (digits_value 0 run)))"

text \<open>\<open>int(response.headers.get('Retry-After', dflt))\<close>.\<close>

definition retry_after :: "(string \<times> string) list \<Rightarrow> int \<Rightarrow> exn + int" where
  "retry_after hs dflt =
     (case header_get hs ''Retry-After'' of None \<Rightarrow> Inr dflt | Some v \<Rightarrow> py_int v)"

subsection \<open>The prologue (lines 92 to 106)\<close>

text \<open>
  \<open>params = params or {}\<close> then \<open>params['api_key'] = self.api_key\<close>.  \<open>None\<close> and the
  empty dict are falsy, so a new dict is made for them; any other dict is the caller's
  own object, and the assignment writes into it.  The result is the local mapping and
  the caller's argument as it is after the assignment.
\<close>

definition prepare_params :: "string \<Rightarrow> params option \<Rightarrow> params \<times> params option" where
  "prepare_params api_key params =
     (case params of
        None \<Rightarrow> ([(''api_key'', PStr api_key)], None)
      | Some p \<Rightarrow>
          (if p = [] then ([(''api_key'', PStr api_key)], Some [])
           else (AList.update ''api_key'' (PStr api_key) p,
                 Some (AList.update ''api_key'' (PStr api_key) p))))"

definition base_url :: string where
  "base_url = ''https://api.themoviedb.org/3''"

definition build_url :: "string \<Rightarrow> string" where
  "build_url endpoint =
     rev (dropWhile (\<lambda>c. c = CHR ''/'') (rev base_url)) @ ''/'' @
     dropWhile (\<lambda>c. c = CHR ''/'') endpoint"

definition initial_state :: state where
  "initial_state = \<lparr>served = 0, events = [], last_exception = None\<rparr>"

text \<open>How one pass through a loop body ends.\<close>

datatype control = Return json | Raise exn | Continue

definition issue_get :: "call \<Rightarrow> state \<Rightarrow> state" where
  "issue_get c s = s\<lparr>served := Suc (served s), events := events s @ [Get (url c) (query c)]\<rparr>"

definition sleep :: "real \<Rightarrow> state \<Rightarrow> state" where
  "sleep d s = s\<lparr>events := events s @ [Sleep d]\<rparr>"

text \<open>\<open>except (aiohttp.ClientError, asyncio.TimeoutError)\<close>.\<close>

fun caught_transport :: "exn \<Rightarrow> bool" where
  "caught_transport (Raised c msg) = (c = ClientError \<or> c = ContentTypeError \<or> c = TimeoutError)"
| "caught_transport (HTTPException code detail) = False"

subsection \<open>The loop of lines 109 to 181\<close>

text \<open>
  The \<open>try\<close> body (lines 111 to 160).  Two requests are opened, one inside the other;
  the status examined is that of the inner one.
\<close>

definition try_body_a :: "call \<Rightarrow> nat \<Rightarrow> state \<Rightarrow> control \<times> state" where
  "try_body_a c attempt s =
     (let s1 = issue_get c s in
      case backend c (served s) of
        Fail e \<Rightarrow> (Raise e, s1)
      | Resp r0 \<Rightarrow>
          (let s2 = issue_get c s1 in
           case backend c (served s1) of
             Fail e \<Rightarrow> (Raise e, s2)
           | Resp r \<Rightarrow>
               if status r = 200 then
                 (case json_result r of Inl e \<Rightarrow> (Raise e, s2) | Inr j \<Rightarrow> (Return j, s2))
               else if status r = 429 then
                 (case retry_after (headers r) 1 of
                    Inl e \<Rightarrow> (Raise e, s2)
                  | Inr n \<Rightarrow> (Continue, sleep (of_int n) s2))
               else if int attempt = max_retries c - 1 then
                 (Raise (HTTPException (status r)
                    (''TMDB API error: '' @ str_int (status r) @ '' - '' @ body r)), s2)
               else
                 (case backoff_a (jitter c attempt) attempt of
                    Inl e \<Rightarrow> (Raise e, s2)
                  | Inr b \<Rightarrow> (Continue, sleep b s2))))"

text \<open>The \<open>try\<close> statement with its handler (lines 162 to 175).\<close>

definition attempt_a :: "call \<Rightarrow> nat \<Rightarrow> state \<Rightarrow> control \<times> state" where
  "attempt_a c attempt s =
     (case try_body_a c attempt s of
        (Raise e, s') \<Rightarrow>
          (if caught_transport e then
             (let s'' = s'\<lparr>last_exception := Some e\<rparr> in
              if int attempt = max_retries c - 1 then
                (Raise (HTTPException 500
                   (''Failed to fetch data from TMDB after '' @ str_int (max_retries c)
                      @ '' attempts: '' @ str_exn e)), s'')
              else
                (case backoff_a (jitter c attempt) attempt of
                   Inl e' \<Rightarrow> (Raise e', s'')
                 | Inr b \<Rightarrow> (Continue, sleep b s'')))
           else (Raise e, s'))
      | (Return j, s') \<Rightarrow> (Return j, s')
      | (Continue, s') \<Rightarrow> (Continue, s'))"

text \<open>\<open>for attempt in range(max_retries)\<close>, then the \<open>raise\<close> of lines 178 to 181.\<close>

function loop_a :: "call \<Rightarrow> nat \<Rightarrow> state \<Rightarrow> (exn + json) \<times> state" where
  "loop_a c attempt s =
     (if int attempt < max_retries c then
        (case attempt_a c attempt s of
           (Return j, s') \<Rightarrow> (Inr j, s')
         | (Raise e, s') \<Rightarrow> (Inl e, s')
         | (Continue, s') \<Rightarrow> loop_a c (Suc attempt) s')
      else
        (Inl (HTTPException 500
           (''Failed to fetch data from TMDB after '' @ str_int (max_retries c) @ '' attempts'')),
         s))"
  by pat_completeness auto
termination
  by (relation "measure (\<lambda>(c, attempt, s). nat (max_retries c - int attempt))") auto

declare loop_a.simps [simp del]

text \<open>
  The call: result (raised exception or returned value), final state, and the caller's
  \<open>params\<close> argument as the call leaves it.
\<close>

definition make_request_a ::
  "string \<Rightarrow> (nat \<Rightarrow> outcome) \<Rightarrow> (nat \<Rightarrow> real) \<Rightarrow> string \<Rightarrow> params option \<Rightarrow> int
     \<Rightarrow> (exn + json) \<times> state \<times> params option" where
  "make_request_a api_key bk jit endpoint params maxr =
     (let pc = prepare_params api_key params;
          c = \<lparr>backend = bk, jitter = jit, url = build_url endpoint, query = fst pc,
               max_retries = maxr\<rparr>;
          rs = loop_a c 0 initial_state
      in (fst rs, snd rs, snd pc))"

subsection \<open>The loop of lines 182 to 248\<close>

text \<open>The \<open>try\<close> body (lines 182 to 223): one request.\<close>

definition try_body_b :: "call \<Rightarrow> nat \<Rightarrow> state \<Rightarrow> control \<times> state" where
  "try_body_b c attempt s =
     (let s1 = issue_get c s in
      case backend c (served s) of
        Fail e \<Rightarrow> (Raise e, s1)
      | Resp r \<Rightarrow>
          if status r = 200 then
            (case json_result r of
               Inl e \<Rightarrow> (Return (JObj [(''results'', JArr [])]), s1)
             | Inr j \<Rightarrow> (Return j, s1))
          else if status r = 204 then (Return (JObj [(''results'', JArr [])]), s1)
          else if status r = 429 then
            (case retry_after (headers r) 5 of
               Inl e \<Rightarrow> (Raise e, s1)
             | Inr n \<Rightarrow> (Continue, sleep (of_int n) s1))
          else if int attempt < max_retries c - 1 \<and> 500 \<le> status r then
            (case backoff_b (jitter c attempt) attempt of
               Inl e \<Rightarrow> (Raise e, s1)
             | Inr b \<Rightarrow> (Continue, sleep b s1))
          else
            (Return (JObj [(''status_code'', JInt (status r)),
                           (''status_message'', JStr (''Error making request: '' @ body r)),
                           (''results'', JArr [])]), s1))"

text \<open>
  The handlers of lines 224 to 231 and 232 to 240.  The second one, \<open>except Exception\<close>,
  takes every exception the first does not.  An exception raised inside a handler
  leaves the function.
\<close>

definition handler_b :: "call \<Rightarrow> nat \<Rightarrow> exn \<Rightarrow> state \<Rightarrow> control \<times> state" where
  "handler_b c attempt e s' =
     (let s'' = s'\<lparr>last_exception := Some e\<rparr> in
      if int attempt < max_retries c - 1 then
        (case backoff_b (jitter c attempt) attempt of
           Inl e' \<Rightarrow> (Raise e', s'')
         | Inr b \<Rightarrow> (Continue, sleep b s''))
      else (Continue, s''))"

definition attempt_b :: "call \<Rightarrow> nat \<Rightarrow> state \<Rightarrow> control \<times> state" where
  "attempt_b c attempt s =
     (case try_body_b c attempt s of
        (Raise e, s') \<Rightarrow>
          (if caught_transport e then handler_b c attempt e s' else handler_b c attempt e s')
      | (Return j, s') \<Rightarrow> (Return j, s')
      | (Continue, s') \<Rightarrow> (Continue, s'))"

text \<open>The loop, then the \<open>return\<close> of lines 242 to 248.\<close>

function loop_b :: "call \<Rightarrow> nat \<Rightarrow> state \<Rightarrow> (exn + json) \<times> state" where
  "loop_b c attempt s =
     (if int attempt < max_retries c then
        (case attempt_b c attempt s of
           (Return j, s') \<Rightarrow> (Inr j, s')
         | (Raise e, s') \<Rightarrow> (Inl e, s')
         | (Continue, s') \<Rightarrow> loop_b c (Suc attempt) s')
      else
        (Inr (JObj [(''status_code'', JInt 500),
                    (''status_message'',
                     JStr (''Error making request after '' @ str_int (max_retries c)
                       @ '' attempts: ''
                       @ (case last_exception s of
                            Some e \<Rightarrow> str_exn e
                          | None \<Rightarrow> ''Unknown error'')))]),
         s))"
  by pat_completeness auto
termination
  by (relation "measure (\<lambda>(c, attempt, s). nat (max_retries c - int attempt))") auto

declare loop_b.simps [simp del]

definition make_request_b ::
  "string \<Rightarrow> (nat \<Rightarrow> outcome) \<Rightarrow> (nat \<Rightarrow> real) \<Rightarrow> string \<Rightarrow> params option \<Rightarrow> int
     \<Rightarrow> (exn + json) \<times> state \<times> params option" where
  "make_request_b api_key bk jit endpoint params maxr =
     (let pc = prepare_params api_key params;
          c = \<lparr>backend = bk, jitter = jit, url = build_url endpoint, query = fst pc,
               max_retries = maxr\<rparr>;
          rs = loop_b c 0 initial_state
      in (fst rs, snd rs, snd pc))"

section \<open>Properties\<close>

subsection \<open>Cleaning the completion text\<close>

lemma fence_eq: "fence = [96, 96, 96]"
  by (simp add: fence_def code_points_def)

lemma take3_ticks: "take 3 s = fence \<longleftrightarrow> 3 \<le> ticks s"
proof (cases s)
  case Nil
  then show ?thesis by (simp add: ticks_def fence_eq)
next
  case s1: (Cons a s1)
  show ?thesis
  proof (cases s1)
    case Nil
    then show ?thesis using s1 by (simp add: ticks_def fence_eq)
  next
    case s2: (Cons b s2)
    show ?thesis
    proof (cases s2)
      case Nil
      then show ?thesis using s1 s2 by (simp add: ticks_def fence_eq)
    next
      case (Cons c s3)
      then show ?thesis using s1 s2 by (simp add: ticks_def fence_eq)
    qed
  qed
qed

lemma len_fence: "length fence = 3"
  by (simp add: fence_eq)

lemma fence_not_Nil: "fence \<noteq> []"
  by (simp add: fence_eq)

lemma replace_hit:
  "old \<noteq> [] \<Longrightarrow> take (length old) (c # cs) = old \<Longrightarrow>
     replace old new (c # cs) = new @ replace old new (drop (length old - 1) cs)"
  by simp

lemma replace_miss:
  "take (length old) (c # cs) \<noteq> old \<Longrightarrow> replace old new (c # cs) = c # replace old new cs"
  by simp

lemma ticks_lt: "take (length fence) s \<noteq> fence \<Longrightarrow> ticks s < 3"
proof -
  assume "take (length fence) s \<noteq> fence"
  then have "take 3 s \<noteq> fence" by (simp only: len_fence simp_thms)
  then have "\<not> 3 \<le> ticks s" unfolding take3_ticks .
  then show ?thesis by simp
qed

lemma ticks_Cons: "ticks (c # cs) = (if c = 96 then Suc (ticks cs) else 0)"
  by (simp add: ticks_def)

lemma ticks_replace: "ticks (replace fence [] s) = ticks s mod 3"
proof (induction fence "[]::ustring" s rule: replace.induct)
  case 1
  then show ?case by (simp add: ticks_def)
next
  case (2 c cs)
  show ?case
  proof (cases "take (length fence) (c # cs) = fence")
    case True
    have ne: "fence \<noteq> []" by (rule fence_not_Nil)
    have hit: "replace fence [] (c # cs) = replace fence [] (drop (length fence - 1) cs)"
      using replace_hit[OF ne True, of "[]"] by (simp only: append_Nil)
    have ih: "ticks (replace fence [] (drop (length fence - 1) cs))
                = ticks (drop (length fence - 1) cs) mod 3"
      using 2(1) ne True by blast
    have d: "drop (length fence) (c # cs) = drop (length fence - 1) cs"
      by (simp add: fence_eq)
    have "c # cs = fence @ drop (length fence) (c # cs)"
      using True by (metis append_take_drop_id)
    then have "c # cs = fence @ drop (length fence - 1) cs"
      unfolding d .
    then have "ticks (c # cs) = ticks (fence @ drop (length fence - 1) cs)" by simp
    also have "\<dots> = 3 + ticks (drop (length fence - 1) cs)"
      by (simp add: ticks_def fence_eq)
    finally show ?thesis using hit ih by simp
  next
    case False
    have lt: "ticks (c # cs) < 3" using False by (rule ticks_lt)
    have eq: "replace fence [] (c # cs) = c # replace fence [] cs"
      using False by (rule replace_miss)
    have ih: "ticks (replace fence [] cs) = ticks cs mod 3" using 2(2) False by blast
    show ?thesis using lt ih unfolding eq ticks_Cons by (simp split: if_splits)
  qed
qed

lemma no_fence_replace: "\<not> occurs fence (replace fence [] s)"
proof (induction fence "[]::ustring" s rule: replace.induct)
  case 1
  then show ?case by (simp add: fence_not_Nil)
next
  case (2 c cs)
  show ?case
  proof (cases "take (length fence) (c # cs) = fence")
    case True
    have ne: "fence \<noteq> []" by (rule fence_not_Nil)
    have hit: "replace fence [] (c # cs) = replace fence [] (drop (length fence - 1) cs)"
      using replace_hit[OF ne True, of "[]"] by (simp only: append_Nil)
    show ?thesis unfolding hit using 2(1) ne True by blast
  next
    case False
    have lt: "ticks (c # cs) < 3" using False by (rule ticks_lt)
    have eq: "replace fence [] (c # cs) = c # replace fence [] cs"
      using False by (rule replace_miss)
    have ih: "\<not> occurs fence (replace fence [] cs)" using 2(2) False by blast
    have "ticks (c # replace fence [] cs) < 3"
      using lt ticks_replace[of cs] unfolding ticks_Cons by (simp split: if_splits)
    then have "\<not> 3 \<le> ticks (c # replace fence [] cs)" by simp
    then have "take 3 (c # replace fence [] cs) \<noteq> fence"
      unfolding take3_ticks .
    then have "take (length fence) (c # replace fence [] cs) \<noteq> fence"
      by (simp only: len_fence simp_thms)
    then show ?thesis unfolding eq using ih by (simp only: occurs.simps simp_thms)
  qed
qed

lemma occurs_append: "occurs pat s \<longleftrightarrow> (\<exists>u v. s = u @ pat @ v)"
proof (induction s)
  case Nil
  then show ?case by auto
next
  case (Cons c cs)
  show ?case
  proof
    assume "occurs pat (c # cs)"
    then consider "take (length pat) (c # cs) = pat" | "occurs pat cs" by auto
    then show "\<exists>u v. c # cs = u @ pat @ v"
    proof cases
      case 1
      then have "c # cs = [] @ pat @ drop (length pat) (c # cs)"
        by (metis append_Nil append_take_drop_id)
      then show ?thesis by blast
    next
      case 2
      then obtain u v where "cs = u @ pat @ v" using Cons by auto
      then have "c # cs = (c # u) @ pat @ v" by simp
      then show ?thesis by blast
    qed
  next
    assume "\<exists>u v. c # cs = u @ pat @ v"
    then obtain u v where uv: "c # cs = u @ pat @ v" by auto
    show "occurs pat (c # cs)"
    proof (cases u)
      case Nil
      then show ?thesis using uv by (metis append_Nil append_eq_conv_conj occurs.simps(2))
    next
      case (Cons a u')
      then have "cs = u' @ pat @ v" using uv by simp
      then show ?thesis using Cons.IH by auto
    qed
  qed
qed

lemma occurs_strip: "occurs pat (strip s) \<Longrightarrow> occurs pat s"
proof -
  assume a: "occurs pat (strip s)"
  have l: "\<exists>p. s = p @ lstrip s" unfolding lstrip_def by (metis takeWhile_dropWhile_id)
  have r: "\<exists>q. t = rstrip t @ q" for t
  proof -
    have "rev t = takeWhile is_space (rev t) @ dropWhile is_space (rev t)" by simp
    then have "t = rev (dropWhile is_space (rev t)) @ rev (takeWhile is_space (rev t))"
      by (metis rev_append rev_rev_ident)
    then show ?thesis unfolding rstrip_def by blast
  qed
  obtain p where p: "s = p @ lstrip s" using l by blast
  obtain q where q: "lstrip s = strip s @ q" using r[of "lstrip s"] unfolding strip_def by blast
  obtain u v where "strip s = u @ pat @ v" using a occurs_append by blast
  then have "s = (p @ u) @ pat @ (v @ q)" using p q by (metis append.assoc)
  then show ?thesis using occurs_append by blast
qed

lemma no_fence_clean: "\<not> occurs fence (clean_content s)"
  unfolding clean_content_def using occurs_strip no_fence_replace by blast

subsection \<open>The name \<open>random\<close> and the backoff expressions\<close>

lemma load_random: "load_name ''random'' = Inl random_undefined"
  by (simp add: load_name_def module_globals_def random_undefined_def)

lemma backoff_a_raises: "backoff_a j attempt = Inl random_undefined"
  by (simp add: backoff_a_def load_random)

lemma backoff_b_raises: "backoff_b j attempt = Inl random_undefined"
  by (simp add: backoff_b_def load_random)

lemma served_issue_get: "served (issue_get c s) = Suc (served s)"
  by (simp add: issue_get_def)

lemma random_undefined_not_transport: "\<not> caught_transport random_undefined"
  by (simp add: random_undefined_def)

text \<open>
  C6.  \<open>random\<close> is not bound in \<open>main.py\<close>, so each backoff expression raises
  \<open>NameError\<close>.  Whenever an execution reaches a backoff branch with attempts remaining
  the call ends there with that \<open>NameError\<close>, and the state it leaves holds the requests
  of the attempt and no sleep: in the loop of lines 109 to 181 on a status other than
  200 and 429 and on a transport error of either request; in the loop of lines 182 to
  248 on a status of 500 or more (the \<open>NameError\<close> of line 214 is caught by the handler
  of line 232, whose own backoff raises it again) and on any exception of the request.
\<close>

theorem backoff_branch_raises_NameError:
  "backoff_a j attempt = Inl random_undefined \<and>
   backoff_b j attempt = Inl random_undefined \<and>
   (int attempt < max_retries c - 1 \<longrightarrow>
      (\<forall>r0 r. backend c (served s) = Resp r0 \<and> backend c (Suc (served s)) = Resp r \<and>
           status r \<noteq> 200 \<and> status r \<noteq> 429 \<longrightarrow>
         loop_a c attempt s = (Inl random_undefined, issue_get c (issue_get c s))) \<and>
      (\<forall>e. backend c (served s) = Fail e \<and> caught_transport e \<longrightarrow>
         loop_a c attempt s =
           (Inl random_undefined, (issue_get c s)\<lparr>last_exception := Some e\<rparr>)) \<and>
      (\<forall>r0 e. backend c (served s) = Resp r0 \<and> backend c (Suc (served s)) = Fail e \<and>
           caught_transport e \<longrightarrow>
         loop_a c attempt s =
           (Inl random_undefined, (issue_get c (issue_get c s))\<lparr>last_exception := Some e\<rparr>)) \<and>
      (\<forall>r. backend c (served s) = Resp r \<and> status r \<noteq> 200 \<and> status r \<noteq> 204 \<and>
           status r \<noteq> 429 \<and> 500 \<le> status r \<longrightarrow>
         loop_b c attempt s =
           (Inl random_undefined, (issue_get c s)\<lparr>last_exception := Some random_undefined\<rparr>)) \<and>
      (\<forall>e. backend c (served s) = Fail e \<longrightarrow>
         loop_b c attempt s =
           (Inl random_undefined, (issue_get c s)\<lparr>last_exception := Some e\<rparr>)))"
proof (intro conjI impI allI)
  show "backoff_a j attempt = Inl random_undefined" by (rule backoff_a_raises)
  show "backoff_b j attempt = Inl random_undefined" by (rule backoff_b_raises)
next
  fix r0 r
  assume rem: "int attempt < max_retries c - 1"
    and h: "backend c (served s) = Resp r0 \<and> backend c (Suc (served s)) = Resp r \<and>
           status r \<noteq> 200 \<and> status r \<noteq> 429"
  have t: "try_body_a c attempt s = (Raise random_undefined, issue_get c (issue_get c s))"
    using rem h by (simp add: try_body_a_def served_issue_get backoff_a_raises)
  show "loop_a c attempt s = (Inl random_undefined, issue_get c (issue_get c s))"
    using rem by (subst loop_a.simps) (simp add: attempt_a_def t random_undefined_not_transport)
next
  fix e
  assume rem: "int attempt < max_retries c - 1"
    and h: "backend c (served s) = Fail e \<and> caught_transport e"
  have t: "try_body_a c attempt s = (Raise e, issue_get c s)"
    using h by (simp add: try_body_a_def)
  show "loop_a c attempt s = (Inl random_undefined, (issue_get c s)\<lparr>last_exception := Some e\<rparr>)"
    using rem h by (subst loop_a.simps) (simp add: attempt_a_def t backoff_a_raises)
next
  fix r0 e
  assume rem: "int attempt < max_retries c - 1"
    and h: "backend c (served s) = Resp r0 \<and> backend c (Suc (served s)) = Fail e \<and>
           caught_transport e"
  have t: "try_body_a c attempt s = (Raise e, issue_get c (issue_get c s))"
    using h by (simp add: try_body_a_def served_issue_get)
  show "loop_a c attempt s =
      (Inl random_undefined, (issue_get c (issue_get c s))\<lparr>last_exception := Some e\<rparr>)"
    using rem h by (subst loop_a.simps) (simp add: attempt_a_def t backoff_a_raises)
next
  fix r
  assume rem: "int attempt < max_retries c - 1"
    and h: "backend c (served s) = Resp r \<and> status r \<noteq> 200 \<and> status r \<noteq> 204 \<and>
           status r \<noteq> 429 \<and> 500 \<le> status r"
  have t: "try_body_b c attempt s = (Raise random_undefined, issue_get c s)"
    using rem h by (simp add: try_body_b_def backoff_b_raises)
  show "loop_b c attempt s =
      (Inl random_undefined, (issue_get c s)\<lparr>last_exception := Some random_undefined\<rparr>)"
    using rem by (subst loop_b.simps) (simp add: attempt_b_def handler_b_def t backoff_b_raises)
next
  fix e
  assume rem: "int attempt < max_retries c - 1"
    and h: "backend c (served s) = Fail e"
  have t: "try_body_b c attempt s = (Raise e, issue_get c s)"
    using h by (simp add: try_body_b_def)
  show "loop_b c attempt s = (Inl random_undefined, (issue_get c s)\<lparr>last_exception := Some e\<rparr>)"
    using rem by (subst loop_b.simps) (simp add: attempt_b_def handler_b_def t backoff_b_raises)
qed


theorem backoff_branch_raises_NameError_witness:
  "loop_a \<lparr>backend = (\<lambda>n. Resp \<lparr>status = 503, headers = [], body = ''unavailable'',
                                   json_result = Inl (Raised JSONDecodeError ''Expecting value'')\<rparr>),
           jitter = (\<lambda>n. 1 / 2), url = ''https://api.themoviedb.org/3/movie/popular'',
           query = [(''api_key'', PStr ''k'')], max_retries = 3\<rparr> 0 initial_state =
     (Inl random_undefined,
      \<lparr>served = 2,
       events = [Get ''https://api.themoviedb.org/3/movie/popular'' [(''api_key'', PStr ''k'')],
                 Get ''https://api.themoviedb.org/3/movie/popular'' [(''api_key'', PStr ''k'')]],
       last_exception = None\<rparr>)"
  using backoff_branch_raises_NameError
    [of "1 / 2" 0
        "\<lparr>backend = (\<lambda>n. Resp \<lparr>status = 503, headers = [], body = ''unavailable'',
                                   json_result = Inl (Raised JSONDecodeError ''Expecting value'')\<rparr>),
          jitter = (\<lambda>n. 1 / 2), url = ''https://api.themoviedb.org/3/movie/popular'',
          query = [(''api_key'', PStr ''k'')], max_retries = 3\<rparr>"
        initial_state]
  by (simp add: issue_get_def initial_state_def)

subsection \<open>Unfolding the loops\<close>



subsection \<open>Evaluating a call\<close>

lemmas run_defs =
  make_request_a_def make_request_b_def Let_def prepare_params_def build_url_def base_url_def
  initial_state_def loop_a.simps loop_b.simps attempt_a_def try_body_a_def attempt_b_def
  try_body_b_def handler_b_def issue_get_def sleep_def backoff_a_raises backoff_b_raises
  random_undefined_def str_int_def digits.simps


subsection \<open>The sleep before a retry\<close>

text \<open>
  C5 at a concrete input.  With the default \<open>max_retries = 3\<close> and a backend that
  answers 500, the first attempt reaches the backoff expression, which raises
  \<open>NameError\<close>: the call ends with that exception after the requests of one attempt,
  and no sleep of any duration is awaited, in either loop.
\<close>

theorem backoff_never_sleeps:
  "make_request_a ''k''
     (\<lambda>n. Resp \<lparr>status = 500, headers = [], body = ''down'',
                 json_result = Inl (Raised JSONDecodeError ''Expecting value'')\<rparr>)
     (\<lambda>n. 1 / 2) ''movie/popular'' None 3
   = (Inl random_undefined,
      \<lparr>served = 2,
       events = [Get ''https://api.themoviedb.org/3/movie/popular'' [(''api_key'', PStr ''k'')],
                 Get ''https://api.themoviedb.org/3/movie/popular'' [(''api_key'', PStr ''k'')]],
       last_exception = None\<rparr>, None) \<and>
   make_request_b ''k''
     (\<lambda>n. Resp \<lparr>status = 500, headers = [], body = ''down'',
                 json_result = Inl (Raised JSONDecodeError ''Expecting value'')\<rparr>)
     (\<lambda>n. 1 / 2) ''movie/popular'' None 3
   = (Inl random_undefined,
      \<lparr>served = 1,
       events = [Get ''https://api.themoviedb.org/3/movie/popular'' [(''api_key'', PStr ''k'')]],
       last_exception = Some random_undefined\<rparr>, None)"
  by (simp add: run_defs)

subsection \<open>Status 429\<close>











subsection \<open>Status 200 with a body that does not parse\<close>

text \<open>
  C3 at a concrete input.  A first attempt receives status 200 with a body on which
  \<open>response.json()\<close> raises.  Lines 137 and 138 return \<open>await response.json()\<close> with
  no guard, so the call does not return \<open>{"results": []}\<close>: a \<open>JSONDecodeError\<close>
  reaches the caller as it is, and a \<open>ContentTypeError\<close>, being a client error, is
  handled as a transport failure and sent to the retry path, which ends in the
  \<open>NameError\<close> of the backoff expression.
\<close>

theorem parse_failure_raised:
  "make_request_a ''k''
     (\<lambda>n. Resp \<lparr>status = 200, headers = [], body = ''<html>'',
                 json_result = Inl (Raised JSONDecodeError ''Expecting value'')\<rparr>)
     (\<lambda>n. 0) ''movie/popular'' None 3
   = (Inl (Raised JSONDecodeError ''Expecting value''),
      \<lparr>served = 2,
       events = [Get ''https://api.themoviedb.org/3/movie/popular'' [(''api_key'', PStr ''k'')],
                 Get ''https://api.themoviedb.org/3/movie/popular'' [(''api_key'', PStr ''k'')]],
       last_exception = None\<rparr>, None) \<and>
   make_request_a ''k''
     (\<lambda>n. Resp \<lparr>status = 200, headers = [], body = ''<html>'',
                 json_result = Inl (Raised ContentTypeError ''unexpected mimetype'')\<rparr>)
     (\<lambda>n. 0) ''movie/popular'' None 3
   = (Inl random_undefined,
      \<lparr>served = 2,
       events = [Get ''https://api.themoviedb.org/3/movie/popular'' [(''api_key'', PStr ''k'')],
                 Get ''https://api.themoviedb.org/3/movie/popular'' [(''api_key'', PStr ''k'')]],
       last_exception = Some (Raised ContentTypeError ''unexpected mimetype'')\<rparr>, None)"
  by (simp add: run_defs)

subsection \<open>Status 4xx other than 429\<close>

text \<open>
  C4 at a concrete input.  A first attempt receives status 404.  Lines 147 to 160
  treat every status other than 200 and 429 alike: with attempts remaining (first run,
  default budget) the call goes to the retry path, where the backoff expression raises
  \<open>NameError\<close>; on the last attempt of the budget (second run, budget of one) it
  raises \<open>HTTPException\<close> with the status.  In neither run is a mapping with
  \<open>results = []\<close> returned.
\<close>

theorem client_error_raised:
  "make_request_a ''k''
     (\<lambda>n. Resp \<lparr>status = 404, headers = [], body = ''not found'',
                 json_result = Inl (Raised JSONDecodeError ''Expecting value'')\<rparr>)
     (\<lambda>n. 0) ''movie/0'' None 3
   = (Inl random_undefined,
      \<lparr>served = 2,
       events = [Get ''https://api.themoviedb.org/3/movie/0'' [(''api_key'', PStr ''k'')],
                 Get ''https://api.themoviedb.org/3/movie/0'' [(''api_key'', PStr ''k'')]],
       last_exception = None\<rparr>, None) \<and>
   make_request_a ''k''
     (\<lambda>n. Resp \<lparr>status = 404, headers = [], body = ''not found'',
                 json_result = Inl (Raised JSONDecodeError ''Expecting value'')\<rparr>)
     (\<lambda>n. 0) ''movie/0'' None 1
   = (Inl (HTTPException 404 ''TMDB API error: 404 - not found''),
      \<lparr>served = 2,
       events = [Get ''https://api.themoviedb.org/3/movie/0'' [(''api_key'', PStr ''k'')],
                 Get ''https://api.themoviedb.org/3/movie/0'' [(''api_key'', PStr ''k'')]],
       last_exception = None\<rparr>, None)"
  by (simp add: run_defs)

subsection \<open>A run of failed attempts\<close>

text \<open>
  C1 at a concrete input.  With the default \<open>max_retries = 3\<close>, a backend that answers
  503 to every request, or on which every request times out, is not retried at all:
  the first attempt reaches the backoff expression (line 158 after the response, line
  173 in the handler of the timeout), \<open>NameError\<close> is raised there and leaves the call.
  The caller gets an exception and no mapping with \<open>results = []\<close>; the state holds
  the requests of one attempt and no sleep.
\<close>

theorem failing_run_raises:
  "make_request_a ''k''
     (\<lambda>n. Resp \<lparr>status = 503, headers = [], body = ''unavailable'',
                 json_result = Inl (Raised JSONDecodeError ''Expecting value'')\<rparr>)
     (\<lambda>n. 0) ''trending/all/day'' None 3
   = (Inl random_undefined,
      \<lparr>served = 2,
       events = [Get ''https://api.themoviedb.org/3/trending/all/day'' [(''api_key'', PStr ''k'')],
                 Get ''https://api.themoviedb.org/3/trending/all/day'' [(''api_key'', PStr ''k'')]],
       last_exception = None\<rparr>, None) \<and>
   make_request_a ''k'' (\<lambda>n. Fail (Raised TimeoutError ''timed out''))
     (\<lambda>n. 0) ''trending/all/day'' None 3
   = (Inl random_undefined,
      \<lparr>served = 1,
       events = [Get ''https://api.themoviedb.org/3/trending/all/day'' [(''api_key'', PStr ''k'')]],
       last_exception = Some (Raised TimeoutError ''timed out'')\<rparr>, None)"
  by (simp add: run_defs)

subsection \<open>A successful first attempt\<close>



subsection \<open>The caller's query parameters\<close>

lemma update_api_key_other:
  "k \<noteq> ''api_key'' \<Longrightarrow> map_of (AList.update ''api_key'' v p) k = map_of p k"
  by (simp add: update_conv')

lemma update_same_iff: "AList.update k v p = p \<longleftrightarrow> map_of p k = Some v"
proof
  assume "AList.update k v p = p"
  then have "map_of p k = map_of (AList.update k v p) k" by simp
  then show "map_of p k = Some v" by (simp add: update_conv')
next
  assume "map_of p k = Some v"
  then show "AList.update k v p = p" by (rule update_triv)
qed

text \<open>
  C9, as the code has it.  After the call the caller's \<open>params\<close> argument is what the
  prologue leaves, in both loops and whatever the requests do.  \<open>None\<close> stays \<open>None\<close>
  and an empty mapping stays empty (the function works on a new dict).  A non-empty
  mapping is updated in place: it then maps \<open>api_key\<close> to the client's key and agrees
  with the original on every other key.  So the argument is unchanged exactly when it
  is \<open>None\<close>, empty, or already maps \<open>api_key\<close> to the client's key.
\<close>

theorem params_after_call:
  "snd (snd (make_request_a key bk jit endpoint params maxr)) = snd (prepare_params key params) \<and>
   snd (snd (make_request_b key bk jit endpoint params maxr)) = snd (prepare_params key params) \<and>
   (params = None \<longrightarrow> snd (prepare_params key params) = None) \<and>
   (params = Some [] \<longrightarrow> snd (prepare_params key params) = Some []) \<and>
   (\<forall>p. params = Some p \<and> p \<noteq> [] \<longrightarrow>
      (\<exists>p'. snd (prepare_params key params) = Some p' \<and>
            map_of p' ''api_key'' = Some (PStr key) \<and>
            (\<forall>k. k \<noteq> ''api_key'' \<longrightarrow> map_of p' k = map_of p k))) \<and>
   ((snd (prepare_params key params) = params) =
      (params = None \<or> params = Some [] \<or>
       (\<exists>p. params = Some p \<and> map_of p ''api_key'' = Some (PStr key))))"
proof (intro conjI)
  show "snd (snd (make_request_a key bk jit endpoint params maxr)) = snd (prepare_params key params)"
    by (simp add: make_request_a_def Let_def)
  show "snd (snd (make_request_b key bk jit endpoint params maxr)) = snd (prepare_params key params)"
    by (simp add: make_request_b_def Let_def)
  show "params = None \<longrightarrow> snd (prepare_params key params) = None"
    by (simp add: prepare_params_def)
  show "params = Some [] \<longrightarrow> snd (prepare_params key params) = Some []"
    by (simp add: prepare_params_def)
  show "\<forall>p. params = Some p \<and> p \<noteq> [] \<longrightarrow>
      (\<exists>p'. snd (prepare_params key params) = Some p' \<and>
            map_of p' ''api_key'' = Some (PStr key) \<and>
            (\<forall>k. k \<noteq> ''api_key'' \<longrightarrow> map_of p' k = map_of p k))"
    by (simp add: prepare_params_def update_conv' update_api_key_other)
  show "(snd (prepare_params key params) = params) =
      (params = None \<or> params = Some [] \<or>
       (\<exists>p. params = Some p \<and> map_of p ''api_key'' = Some (PStr key)))"
  proof (cases params)
    case None
    then show ?thesis by (simp add: prepare_params_def)
  next
    case (Some p)
    then show ?thesis
      by (cases "p = []") (simp_all add: prepare_params_def update_same_iff)
  qed
qed

theorem params_after_call_witness:
  "snd (snd (make_request_a ''k'' (\<lambda>n. Fail (Raised TimeoutError [])) (\<lambda>n. 0) ''search/multi''
          (Some [(''query'', PStr ''Inception''), (''page'', PInt 1)]) 1))
     = snd (prepare_params ''k'' (Some [(''query'', PStr ''Inception''), (''page'', PInt 1)])) \<and>
   (\<exists>p'. snd (prepare_params ''k'' (Some [(''query'', PStr ''Inception''), (''page'', PInt 1)])) = Some p' \<and>
      map_of p' ''api_key'' = Some (PStr ''k'') \<and>
      (\<forall>k. k \<noteq> ''api_key'' \<longrightarrow>
         map_of p' k = map_of [(''query'', PStr ''Inception''), (''page'', PInt 1)] k)) \<and>
   snd (prepare_params ''k'' (Some [(''query'', PStr ''Inception''), (''page'', PInt 1)]))
     \<noteq> Some [(''query'', PStr ''Inception''), (''page'', PInt 1)]"
  using params_after_call
    [of "''k''" "\<lambda>n. Fail (Raised TimeoutError [])" "\<lambda>n. 0" "''search/multi''"
        "Some [(''query'', PStr ''Inception''), (''page'', PInt 1)]" 1]
  by simp

text \<open>
  C9 as stated fails: a caller that passes \<open>{"query": "Inception", "page": 1}\<close> finds
  the entry \<open>api_key\<close> in its own mapping after the call.
\<close>

theorem params_mutated_counterexample:
  "snd (snd (make_request_a ''k''
          (\<lambda>n. Resp \<lparr>status = 200, headers = [], body = ''{}'', json_result = Inr (JObj [])\<rparr>)
          (\<lambda>n. 0) ''search/multi''
          (Some [(''query'', PStr ''Inception''), (''page'', PInt 1)]) 3))
     = Some [(''query'', PStr ''Inception''), (''page'', PInt 1), (''api_key'', PStr ''k'')] \<and>
   snd (snd (make_request_b ''k''
          (\<lambda>n. Resp \<lparr>status = 200, headers = [], body = ''{}'', json_result = Inr (JObj [])\<rparr>)
          (\<lambda>n. 0) ''search/multi''
          (Some [(''query'', PStr ''Inception''), (''page'', PInt 1)]) 3))
     = Some [(''query'', PStr ''Inception''), (''page'', PInt 1), (''api_key'', PStr ''k'')]"
  by (simp add: make_request_a_def make_request_b_def Let_def prepare_params_def)

subsection \<open>The trending route\<close>

text \<open>
  C10.  Every request to \<open>GET /api/trending\<close> fails: the handler passes three
  arguments to \<open>TMDBClient.get_trending\<close>, which takes two, so the call raises
  \<open>TypeError\<close> whatever the inputs and whatever \<open>_make_request\<close> would do; no result is
  returned.
\<close>

theorem get_trending_raises_TypeError:
  "get_trending mk media_type time_window page =
     Inl (Raised TypeError
       ''TMDBClient.get_trending() takes from 1 to 3 positional arguments but 4 were given'')"
  by (simp add: get_trending_def TMDBClient_get_trending_def bind_positional_def
      str_int_def digits.simps)

subsection \<open>Streaming links\<close>

text \<open>
  C8.  \<open>get_direct_streaming_links\<close> never raises, whatever the completion call and the
  JSON parser do: it always returns a list.  The list is empty when the call raises,
  when reading the content of the first choice raises, and when the content is no
  text.  When the content is a text, the text is stripped and cleaned of its
  code-fence markers (no three backquotes are left in what is parsed), then parsed,
  and the parsed value is returned when it is a list; a parse error or a value of
  another kind gives the empty list.
\<close>

theorem get_direct_streaming_links_never_raises:
  "(\<exists>links. get_direct_streaming_links loads create title content_type year = Inr links) \<and>
   (\<forall>e. create title content_type year = Inl e \<longrightarrow>
      get_direct_streaming_links loads create title content_type year = Inr []) \<and>
   (\<forall>e. create title content_type year = Inr (Lookup_raises e) \<longrightarrow>
      get_direct_streaming_links loads create title content_type year = Inr []) \<and>
   (create title content_type year = Inr Not_text \<longrightarrow>
      get_direct_streaming_links loads create title content_type year = Inr []) \<and>
   (\<forall>s. create title content_type year = Inr (Text s) \<longrightarrow>
      \<not> occurs fence (clean_content s) \<and>
      get_direct_streaming_links loads create title content_type year =
        Inr (case loads (clean_content s) of Inr (JArr links) \<Rightarrow> links | _ \<Rightarrow> []))"
proof (intro conjI allI impI)
  show "\<exists>links. get_direct_streaming_links loads create title content_type year = Inr links"
    by (simp add: get_direct_streaming_links_def split: sum.splits)
next
  fix e assume "create title content_type year = Inl e"
  then show "get_direct_streaming_links loads create title content_type year = Inr []"
    by (simp add: get_direct_streaming_links_def)
next
  fix e assume "create title content_type year = Inr (Lookup_raises e)"
  then show "get_direct_streaming_links loads create title content_type year = Inr []"
    by (simp add: get_direct_streaming_links_def parse_links_def)
next
  assume "create title content_type year = Inr Not_text"
  then show "get_direct_streaming_links loads create title content_type year = Inr []"
    by (simp add: get_direct_streaming_links_def parse_links_def)
next
  fix s
  assume "create title content_type year = Inr (Text s)"
  then show "get_direct_streaming_links loads create title content_type year =
        Inr (case loads (clean_content s) of Inr (JArr links) \<Rightarrow> links | _ \<Rightarrow> [])"
    by (simp add: get_direct_streaming_links_def parse_links_def split: sum.splits json.splits)
next
  fix s
  show "\<not> occurs fence (clean_content s)" by (rule no_fence_clean)
qed

theorem get_direct_streaming_links_never_raises_witness:
  "get_direct_streaming_links
     (\<lambda>s. if s = code_points ''[1]'' then Inr (JArr [JInt 1])
          else Inl (Raised JSONDecodeError ''Expecting value''))
     (\<lambda>t c y. Inr (Text ([160] @ code_points ''```json'' @ [10] @ code_points ''[1]''
                          @ [10] @ code_points ''```'' @ [8195])))
     ''Inception'' ''movie'' (Some 2010) = Inr [JInt 1]"
proof -
  let ?loads = "\<lambda>s. if s = code_points ''[1]'' then Inr (JArr [JInt 1])
                     else Inl (Raised JSONDecodeError ''Expecting value'')"
  let ?text = "[160] @ code_points ''```json'' @ [10] @ code_points ''[1]''
                 @ [10] @ code_points ''```'' @ [8195]"
  let ?create = "\<lambda>(t::string) (c::string) (y::int option). Inr (Text ?text) :: exn + content"
  have h: "?create ''Inception'' ''movie'' (Some 2010) = Inr (Text ?text)"
    by simp
  have c: "clean_content ?text = code_points ''[1]''"
    by (simp add: clean_content_def strip_def lstrip_def rstrip_def is_space_def
        fence_def fence_json_def code_points_def)
  have "get_direct_streaming_links ?loads ?create ''Inception'' ''movie'' (Some 2010) =
          Inr (case ?loads (clean_content ?text) of Inr (JArr links) \<Rightarrow> links | _ \<Rightarrow> [])"
    using get_direct_streaming_links_never_raises
            [of ?loads ?create "''Inception''" "''movie''" "Some 2010"] h
    by blast
  then show ?thesis unfolding c by simp
qed

end
